theory Spec2Isabelle
  imports Complex_Main "HOL-Library.Char_ord" "HOL-Library.List_Lexorder"
begin

section \<open>Python values, dictionaries and errors\<close>

text \<open>
  The engine works on untyped Python dictionaries: implementation records read from CSV
  (every cell a float or a string) and a policy intent read from JSON (numbers, strings,
  null, nested objects). A value is therefore one of the four shapes below. Numbers are
  modelled as exact reals (Python's int and float compared and divided without rounding);
  strings are compared lexicographically, as Python does. A dictionary is an association
  list in insertion order, looked up with \<open>map_of\<close>.
\<close>

datatype pyval = PNone | PNum real | PStr string | PDict "(string \<times> pyval) list"

type_synonym pydict = "(string \<times> pyval) list"

datatype py_error = KeyError string | TypeError | ZeroDivisionError | AttributeError

text \<open>Sequencing of fallible steps: the first raised error ends the computation.\<close>

definition py_then :: "py_error + 'a \<Rightarrow> ('a \<Rightarrow> py_error + 'b) \<Rightarrow> py_error + 'b" where
  "py_then m f = (case m of Inl e \<Rightarrow> Inl e | Inr x \<Rightarrow> f x)"

text \<open>\<open>a < b\<close> and \<open>a > b\<close>: defined between two numbers and between two strings, a
  \<open>TypeError\<close> for every other pair (in particular whenever one side is \<open>None\<close>).\<close>

fun py_lt :: "pyval \<Rightarrow> pyval \<Rightarrow> py_error + bool" where
  "py_lt (PNum a) (PNum b) = Inr (a < b)"
| "py_lt (PStr a) (PStr b) = Inr (a < b)"
| "py_lt _ _ = Inl TypeError"

fun py_gt :: "pyval \<Rightarrow> pyval \<Rightarrow> py_error + bool" where
  "py_gt (PNum a) (PNum b) = Inr (a > b)"
| "py_gt (PStr a) (PStr b) = Inr (a > b)"
| "py_gt _ _ = Inl TypeError"

text \<open>\<open>a - b\<close> and \<open>a / b\<close>: numbers only; true division raises on a zero divisor.\<close>

fun py_sub :: "pyval \<Rightarrow> pyval \<Rightarrow> py_error + real" where
  "py_sub (PNum a) (PNum b) = Inr (a - b)"
| "py_sub _ _ = Inl TypeError"

fun py_truediv :: "real \<Rightarrow> pyval \<Rightarrow> py_error + real" where
  "py_truediv a (PNum b) = (if b = 0 then Inl ZeroDivisionError else Inr (a / b))"
| "py_truediv a _ = Inl TypeError"

text \<open>\<open>d[key]\<close>, \<open>d.get(key)\<close> and \<open>d.get(key, default)\<close> on a dictionary with a
  literal string key.\<close>

definition dict_index :: "pydict \<Rightarrow> string \<Rightarrow> py_error + pyval" where
  "dict_index d k = (case map_of d k of None \<Rightarrow> Inl (KeyError k) | Some v \<Rightarrow> Inr v)"

definition dict_get :: "pydict \<Rightarrow> string \<Rightarrow> pyval" where
  "dict_get d k = (case map_of d k of None \<Rightarrow> PNone | Some v \<Rightarrow> v)"

definition dict_get_default :: "pydict \<Rightarrow> string \<Rightarrow> pyval \<Rightarrow> pyval" where
  "dict_get_default d k dflt = (case map_of d k of None \<Rightarrow> dflt | Some v \<Rightarrow> v)"

text \<open>Lookups whose key is itself a value read from the policy (\<open>metric_name\<close>): a
  dictionary key is unhashable, a number or \<open>None\<close> is hashable but never a key of a
  string-keyed dictionary.\<close>

fun dict_has_val :: "pydict \<Rightarrow> pyval \<Rightarrow> py_error + bool" where
  "dict_has_val d (PStr k) = Inr (map_of d k \<noteq> None)"
| "dict_has_val d (PDict _) = Inl TypeError"
| "dict_has_val d _ = Inr False"

fun dict_get_val :: "pydict \<Rightarrow> pyval \<Rightarrow> py_error + pyval" where
  "dict_get_val d (PStr k) = Inr (dict_get d k)"
| "dict_get_val d (PDict _) = Inl TypeError"
| "dict_get_val d _ = Inr PNone"

text \<open>\<open>key in x\<close> and \<open>x[key]\<close> when \<open>x\<close> is any value: membership is key membership
  on a dictionary and substring search on a string; subscripting with a string works on
  a dictionary only.\<close>

fun starts_with :: "string \<Rightarrow> string \<Rightarrow> bool" where
  "starts_with [] s = True"
| "starts_with (c # p) [] = False"
| "starts_with (c # p) (d # s) = (c = d \<and> starts_with p s)"

fun contains_str :: "string \<Rightarrow> string \<Rightarrow> bool" where
  "contains_str p [] = (p = [])"
| "contains_str p (c # s) = (starts_with p (c # s) \<or> contains_str p s)"

fun py_in :: "string \<Rightarrow> pyval \<Rightarrow> py_error + bool" where
  "py_in k (PDict d) = Inr (map_of d k \<noteq> None)"
| "py_in k (PStr s) = Inr (contains_str k s)"
| "py_in k _ = Inl TypeError"

fun py_subscript :: "pyval \<Rightarrow> string \<Rightarrow> py_error + pyval" where
  "py_subscript (PDict d) k = dict_index d k"
| "py_subscript _ k = Inl TypeError"

text \<open>The guard \<open>key in d and cmp(value, d[key])\<close> shared by the tolerance-band check
  and the cohort criteria.\<close>

definition bound_broken ::
  "string \<Rightarrow> (pyval \<Rightarrow> pyval \<Rightarrow> py_error + bool) \<Rightarrow> pyval \<Rightarrow> pyval \<Rightarrow> py_error + bool" where
  "bound_broken key cmp val d =
     py_then (py_in key d) (\<lambda>present.
       if present then py_then (py_subscript d key) (\<lambda>b. cmp val b) else Inr False)"

section \<open>Constraint evaluator and severity scorer\<close>

text \<open>\<open>check_metric_constraint\<close> of \<open>drift_detector.py\<close> (the same text in
  \<open>backend/drift/detector.py\<close>).\<close>

definition check_metric_constraint ::
  "pyval \<Rightarrow> pydict \<Rightarrow> pydict \<Rightarrow> py_error + (bool \<times> pyval)" where
  "check_metric_constraint val c target_metrics =
     py_then (dict_index c ''type'') (\<lambda>constraint_type.
     py_then (dict_index c ''metric'') (\<lambda>metric_name.
       if constraint_type = PStr ''minimum_coverage'' then
         (let threshold = dict_get c ''threshold'' in
          py_then (py_lt val threshold) (\<lambda>b. Inr (b, threshold)))
       else if constraint_type = PStr ''temporal_consistency'' then
         (let threshold = dict_get c ''threshold'' in
          py_then (py_gt val threshold) (\<lambda>b. Inr (b, threshold)))
       else if constraint_type = PStr ''resource_allocation'' then
         (let threshold = dict_get c ''threshold'' in
          py_then (py_lt val threshold) (\<lambda>b. Inr (b, threshold)))
       else
         py_then (dict_has_val target_metrics metric_name) (\<lambda>known.
           if known then
             py_then (dict_get_val target_metrics metric_name) (\<lambda>metric_def.
             py_then (bound_broken ''min'' py_lt val metric_def) (\<lambda>below.
               if below then py_then (py_subscript metric_def ''min'') (\<lambda>b. Inr (True, b))
               else
                 py_then (bound_broken ''max'' py_gt val metric_def) (\<lambda>above.
                   if above then py_then (py_subscript metric_def ''max'') (\<lambda>b. Inr (True, b))
                   else Inr (False, PNum 0))))
           else Inr (False, PNum 0))))"

text \<open>\<open>calculate_severity\<close>: the deviation is a percentage of the threshold, and the
  division is not guarded.\<close>

definition calculate_severity :: "pyval \<Rightarrow> pyval \<Rightarrow> pyval \<Rightarrow> py_error + string" where
  "calculate_severity actual threshold constraint_type =
     py_then
       (if constraint_type \<in> set [PStr ''minimum_coverage'', PStr ''resource_allocation'']
        then py_then (py_sub threshold actual) (\<lambda>diff. py_truediv diff threshold)
        else py_then (py_sub actual threshold) (\<lambda>diff. py_truediv diff threshold))
       (\<lambda>quotient.
          let deviation = quotient * 100 in
          if deviation > 30 then Inr ''high''
          else if deviation > 15 then Inr ''medium''
          else Inr ''low'')"


section \<open>Cohort classifier\<close>

text \<open>
  The repository holds the engine twice: the command-line program (\<open>intent_parser.py\<close>,
  \<open>drift_detector.py\<close>, \<open>explain.py\<close>, \<open>main.py\<close>) and the web backend
  (\<open>backend/drift/detector.py\<close>). The two differ in the cohort criteria they accept and
  in how a finding reads the region's name; everything else is the same text. The variant
  is a parameter of the functions that differ. The backend's \<open>policy_id\<close> and
  \<open>dataset_id\<close>, copied unchanged into every finding, and its final database insert
  are left out.
\<close>

datatype variant = Cli | Backend

record policy_intent =
  target_groups :: "pydict list"
  constraints :: "pydict list"
  target_metrics :: pydict

record drift_result =
  drift_type :: string
  district_id :: pyval
  district_name :: pyval
  constraint :: pydict
  actual_value :: pyval
  expected_threshold :: pyval
  month :: pyval
  severity :: string

text \<open>The range test of one criterion: \<open>False\<close> when a present bound is broken.\<close>

definition within_range :: "pyval \<Rightarrow> pyval \<Rightarrow> py_error + bool" where
  "within_range val conditions =
     py_then (bound_broken ''min'' py_lt val conditions) (\<lambda>below.
       if below then Inr False
       else py_then (bound_broken ''max'' py_gt val conditions) (\<lambda>above. Inr (\<not> above)))"

text \<open>One pass of the loop over \<open>criteria.items()\<close>: \<open>Inr False\<close> is the early
  \<open>return False\<close>, \<open>Inr True\<close> goes on to the next criterion. The command-line variant
  applies the range test to every condition; the backend tests a dictionary as a range,
  a number by equality, and nothing else.\<close>

definition criterion_holds :: "variant \<Rightarrow> pydict \<Rightarrow> string \<times> pyval \<Rightarrow> py_error + bool" where
  "criterion_holds v district_data fc =
     (let val = dict_get district_data (fst fc); conditions = snd fc in
      if val = PNone then Inr False
      else (case v of
              Cli \<Rightarrow> within_range val conditions
            | Backend \<Rightarrow>
                (case conditions of
                   PDict d \<Rightarrow> within_range val conditions
                 | PNum n \<Rightarrow> Inr (val = conditions)
                 | _ \<Rightarrow> Inr True)))"

fun criteria_loop :: "variant \<Rightarrow> pydict \<Rightarrow> pydict \<Rightarrow> py_error + bool" where
  "criteria_loop v district_data [] = Inr True"
| "criteria_loop v district_data (fc # rest) =
     (case criterion_holds v district_data fc of
        Inl e \<Rightarrow> Inl e
      | Inr ok \<Rightarrow> if ok then criteria_loop v district_data rest else Inr False)"

definition matches_target_group :: "variant \<Rightarrow> pydict \<Rightarrow> pydict \<Rightarrow> py_error + bool" where
  "matches_target_group v district_data target_group =
     (case dict_get_default target_group ''criteria'' (PDict []) of
        PDict criteria \<Rightarrow> criteria_loop v district_data criteria
      | _ \<Rightarrow> Inl AttributeError)"

fun classify_district :: "variant \<Rightarrow> pydict \<Rightarrow> pydict list \<Rightarrow> py_error + pyval" where
  "classify_district v district_data [] = Inr (PStr ''unclassified'')"
| "classify_district v district_data (target_group # rest) =
     (case matches_target_group v district_data target_group of
        Inl e \<Rightarrow> Inl e
      | Inr matched \<Rightarrow>
          if matched then dict_index target_group ''name''
          else classify_district v district_data rest)"

text \<open>\<open>get_constraints_for_group\<close>, a method of the command-line variant's
  \<open>PolicyIntent\<close> and a comprehension in the backend. Python's \<open>==\<close> is equality
  of values here; the two differ only on two dictionaries listing the same entries in
  different orders, which no cohort name is.\<close>

definition get_constraints_for_group :: "policy_intent \<Rightarrow> pyval \<Rightarrow> pydict list" where
  "get_constraints_for_group policy group_name =
     filter (\<lambda>c. dict_get c ''applies_to'' = group_name \<or> dict_get c ''applies_to'' = PStr ''all'')
       (constraints policy)"

section \<open>Detectors\<close>

text \<open>A loop that extends a result list with what each pass returns; an error raised in
  a pass ends the loop and discards what was collected.\<close>

fun collect :: "('a \<Rightarrow> py_error + 'b list) \<Rightarrow> 'a list \<Rightarrow> py_error + 'b list" where
  "collect f [] = Inr []"
| "collect f (x # xs) =
     (case f x of
        Inl e \<Rightarrow> Inl e
      | Inr ys \<Rightarrow> (case collect f xs of Inl e \<Rightarrow> Inl e | Inr zs \<Rightarrow> Inr (ys @ zs)))"

text \<open>The region's name in a finding: a required key in the command-line variant, with
  the default \<open>"Unknown"\<close> in the backend.\<close>

definition region_name :: "variant \<Rightarrow> pydict \<Rightarrow> py_error + pyval" where
  "region_name v record =
     (case v of
        Cli \<Rightarrow> dict_index record ''district_name''
      | Backend \<Rightarrow> Inr (dict_get_default record ''district_name'' (PStr ''Unknown'')))"

text \<open>The body of the loop of \<open>detect_metric_drift\<close> for one constraint.\<close>

definition metric_finding ::
  "variant \<Rightarrow> pydict \<Rightarrow> pydict \<Rightarrow> pyval \<Rightarrow> pydict \<Rightarrow> py_error + drift_result list" where
  "metric_finding v district_data tmetrics mon c =
     py_then (dict_index c ''type'') (\<lambda>ctype.
       if ctype = PStr ''temporal_consistency'' then Inr []
       else
         py_then (dict_index c ''metric'') (\<lambda>metric_name.
         py_then (dict_get_val district_data metric_name) (\<lambda>actual.
           if actual = PNone then Inr []
           else
             py_then (check_metric_constraint actual c tmetrics) (\<lambda>res.
               if fst res then
                 py_then (calculate_severity actual (snd res) ctype) (\<lambda>sev.
                 py_then (dict_index district_data ''district_id'') (\<lambda>did.
                 py_then (region_name v district_data) (\<lambda>dname.
                   Inr [\<lparr>drift_type = ''metric'', district_id = did, district_name = dname,
                         constraint = c, actual_value = actual,
                         expected_threshold = snd res, month = mon, severity = sev\<rparr>])))
               else Inr []))))"

definition detect_metric_drift ::
  "variant \<Rightarrow> pydict \<Rightarrow> policy_intent \<Rightarrow> pyval \<Rightarrow> py_error + drift_result list" where
  "detect_metric_drift v district_data policy mon =
     py_then (classify_district v district_data (target_groups policy)) (\<lambda>district_group.
       collect (metric_finding v district_data (target_metrics policy) mon)
         (get_constraints_for_group policy district_group))"

text \<open>The comprehension selecting the temporal constraints reads \<open>c["type"]\<close> of every
  constraint.\<close>

fun temporal_constraints :: "pydict list \<Rightarrow> py_error + pydict list" where
  "temporal_constraints [] = Inr []"
| "temporal_constraints (c # cs) =
     (case dict_index c ''type'' of
        Inl e \<Rightarrow> Inl e
      | Inr ctype \<Rightarrow>
          (case temporal_constraints cs of
             Inl e \<Rightarrow> Inl e
           | Inr rest \<Rightarrow> Inr (if ctype = PStr ''temporal_consistency'' then c # rest else rest)))"

text \<open>The body of the inner loop of \<open>detect_temporal_drift\<close> for one record.\<close>

definition temporal_finding ::
  "variant \<Rightarrow> pydict \<Rightarrow> pyval \<Rightarrow> pyval \<Rightarrow> pydict \<Rightarrow> py_error + drift_result list" where
  "temporal_finding v c metric_name threshold record =
     py_then (dict_get_val record metric_name) (\<lambda>val.
       if val = PNone then Inr []
       else
         py_then (py_gt val threshold) (\<lambda>exceeds.
           if exceeds then
             py_then (calculate_severity val threshold (PStr ''temporal_consistency'')) (\<lambda>sev.
             py_then (dict_index record ''district_id'') (\<lambda>did.
             py_then (region_name v record) (\<lambda>dname.
               Inr [\<lparr>drift_type = ''temporal'', district_id = did, district_name = dname,
                     constraint = c, actual_value = val, expected_threshold = threshold,
                     month = dict_get_default record ''month'' (PStr ''unknown''),
                     severity = sev\<rparr>])))
           else Inr []))"

definition temporal_pass ::
  "variant \<Rightarrow> pydict list \<Rightarrow> pydict \<Rightarrow> py_error + drift_result list" where
  "temporal_pass v district_history c =
     py_then (dict_index c ''metric'') (\<lambda>metric_name.
       collect (temporal_finding v c metric_name (dict_get c ''threshold'')) district_history)"

definition detect_temporal_drift ::
  "variant \<Rightarrow> pydict list \<Rightarrow> policy_intent \<Rightarrow> py_error + drift_result list" where
  "detect_temporal_drift v district_history policy =
     (if length district_history < 2 then Inr []
      else py_then (temporal_constraints (constraints policy))
             (collect (temporal_pass v district_history)))"

section \<open>Aggregator\<close>

text \<open>\<open>district_groups[district_id].append(record)\<close> on a \<open>defaultdict(list)\<close>: a new
  key goes last, an old key keeps its place.\<close>

fun group_append ::
  "(pyval \<times> pydict list) list \<Rightarrow> pyval \<Rightarrow> pydict \<Rightarrow> (pyval \<times> pydict list) list" where
  "group_append [] k r = [(k, [r])]"
| "group_append ((k', rs) # g) k r =
     (if k' = k then (k', rs @ [r]) # g else (k', rs) # group_append g k r)"

fun hashable :: "pyval \<Rightarrow> bool" where
  "hashable (PDict d) = False"
| "hashable _ = True"

fun group_records ::
  "(pyval \<times> pydict list) list \<Rightarrow> pydict list \<Rightarrow> py_error + (pyval \<times> pydict list) list" where
  "group_records g [] = Inr g"
| "group_records g (record # rest) =
     (case dict_index record ''district_id'' of
        Inl e \<Rightarrow> Inl e
      | Inr k \<Rightarrow> if hashable k then group_records (group_append g k record) rest
                 else Inl TypeError)"

text \<open>One pass of the loop over \<open>district_groups.items()\<close>: the metric findings of every
  record of the region, then the temporal findings of its history.\<close>

definition region_findings ::
  "variant \<Rightarrow> policy_intent \<Rightarrow> pyval \<times> pydict list \<Rightarrow> py_error + drift_result list" where
  "region_findings v policy kh =
     py_then (collect (\<lambda>record. detect_metric_drift v record policy
                         (dict_get_default record ''month'' (PStr ''unknown''))) (snd kh))
       (\<lambda>metric_drifts.
          py_then (detect_temporal_drift v (snd kh) policy) (\<lambda>temporal_drifts.
            Inr (metric_drifts @ temporal_drifts)))"

definition detect_all_drift ::
  "variant \<Rightarrow> pydict list \<Rightarrow> policy_intent \<Rightarrow> py_error + drift_result list" where
  "detect_all_drift v implementation_data policy =
     py_then (group_records [] implementation_data) (collect (region_findings v policy))"

section \<open>Ingestion\<close>

text \<open>One row of \<open>load_implementation_data\<close> (and of the backend's
  \<open>parse_csv_content\<close>): the five numeric columns are converted with Python's
  \<open>float\<close>, here a parameter that returns \<open>None\<close> where \<open>float\<close> raises
  \<open>ValueError\<close>; a cell that does not convert is kept as text.\<close>

definition numeric_fields :: "string list" where
  "numeric_fields = [''literacy_rate'', ''population'', ''coverage_percentage'',
                     ''fund_utilization'', ''monthly_variance'']"

definition process_row :: "(string \<Rightarrow> real option) \<Rightarrow> (string \<times> string) list \<Rightarrow> pydict" where
  "process_row parse_float row =
     map (\<lambda>kv. if fst kv \<in> set numeric_fields
                then (case parse_float (snd kv) of
                        Some x \<Rightarrow> (fst kv, PNum x)
                      | None \<Rightarrow> (fst kv, PStr (snd kv)))
                else (fst kv, PStr (snd kv))) row"

section \<open>Summary generator\<close>












section \<open>Notions of the specification and sample inputs\<close>



text \<open>The policy of the specification's scenarios: the cohort of districts with a
  literacy rate of at most 70, a coverage floor of 80 for that cohort, and a variance
  ceiling of 10 for every district.\<close>

definition coverage_constraint :: pydict where
  "coverage_constraint =
     [(''type'', PStr ''minimum_coverage''), (''metric'', PStr ''coverage_percentage''),
      (''threshold'', PNum 80), (''applies_to'', PStr ''priority_districts'')]"

definition variance_constraint :: pydict where
  "variance_constraint =
     [(''type'', PStr ''temporal_consistency''), (''metric'', PStr ''monthly_variance''),
      (''threshold'', PNum 10), (''applies_to'', PStr ''all'')]"

definition priority_group :: pydict where
  "priority_group =
     [(''name'', PStr ''priority_districts''),
      (''criteria'', PDict [(''literacy_rate'', PDict [(''max'', PNum 70)])]),
      (''allocation_priority'', PNum 1)]"

definition sample_policy :: policy_intent where
  "sample_policy = \<lparr>target_groups = [priority_group],
                     constraints = [coverage_constraint, variance_constraint],
                     target_metrics = []\<rparr>"

text \<open>A CSV row whose coverage cell is not a number, and a \<open>float\<close> that converts the
  cells of these samples.\<close>

definition sample_float :: "string \<Rightarrow> real option" where
  "sample_float s = (if s = ''65'' then Some 65 else if s = ''72'' then Some 72 else None)"

definition text_coverage_row :: "(string \<times> string) list" where
  "text_coverage_row =
     [(''district_id'', ''D1''), (''district_name'', ''Alpha''), (''month'', ''2024-01''),
      (''literacy_rate'', ''65''), (''coverage_percentage'', ''n/a'')]"








text \<open>The two months of the specification's temporal scenario for region D2.\<close>

definition d2_january :: pydict where
  "d2_january = [(''district_id'', PStr ''D2''), (''district_name'', PStr ''Beta''),
                 (''month'', PStr ''2024-01''), (''literacy_rate'', PNum 82),
                 (''monthly_variance'', PNum 5)]"

definition d2_february :: pydict where
  "d2_february = [(''district_id'', PStr ''D2''), (''district_name'', PStr ''Beta''),
                  (''month'', PStr ''2024-02''), (''literacy_rate'', PNum 82),
                  (''monthly_variance'', PNum 25)]"

definition d2_february_finding :: drift_result where
  "d2_february_finding =
     \<lparr>drift_type = ''temporal'', district_id = PStr ''D2'', district_name = PStr ''Beta'',
      constraint = variance_constraint, actual_value = PNum 25, expected_threshold = PNum 10,
      month = PStr ''2024-02'', severity = ''high''\<rparr>"

text \<open>The grouping as the specification words it: the regions in first-seen order (the
  function \<open>remdups\<close> keeps the last occurrence of each element, so it is applied
  to the reversed list), each with its records in input order.\<close>

definition first_seen :: "'a list \<Rightarrow> 'a list" where
  "first_seen xs = rev (remdups (rev xs))"

definition spec_groups :: "pydict list \<Rightarrow> (pyval \<times> pydict list) list" where
  "spec_groups recs =
     map (\<lambda>k. (k, filter (\<lambda>r. dict_get r ''district_id'' = k) recs))
       (first_seen (map (\<lambda>r. dict_get r ''district_id'') recs))"

text \<open>Two regions reported in interleaved order, the first one below its coverage floor
  in both months.\<close>

definition d1_january :: pydict where
  "d1_january = [(''district_id'', PStr ''D1''), (''district_name'', PStr ''Alpha''),
                 (''month'', PStr ''2024-01''), (''literacy_rate'', PNum 65),
                 (''coverage_percentage'', PNum 72), (''monthly_variance'', PNum 12)]"

definition d1_february :: pydict where
  "d1_february = [(''district_id'', PStr ''D1''), (''district_name'', PStr ''Alpha''),
                  (''month'', PStr ''2024-02''), (''literacy_rate'', PNum 65),
                  (''coverage_percentage'', PNum 50), (''monthly_variance'', PNum 4)]"

definition interleaved_records :: "pydict list" where
  "interleaved_records = [d1_january, d2_january, d1_february, d2_february]"

definition d1_january_coverage :: drift_result where
  "d1_january_coverage =
     \<lparr>drift_type = ''metric'', district_id = PStr ''D1'', district_name = PStr ''Alpha'',
      constraint = coverage_constraint, actual_value = PNum 72, expected_threshold = PNum 80,
      month = PStr ''2024-01'', severity = ''low''\<rparr>"

definition d1_february_coverage :: drift_result where
  "d1_february_coverage =
     \<lparr>drift_type = ''metric'', district_id = PStr ''D1'', district_name = PStr ''Alpha'',
      constraint = coverage_constraint, actual_value = PNum 50, expected_threshold = PNum 80,
      month = PStr ''2024-02'', severity = ''high''\<rparr>"

definition d1_january_variance :: drift_result where
  "d1_january_variance =
     \<lparr>drift_type = ''temporal'', district_id = PStr ''D1'', district_name = PStr ''Alpha'',
      constraint = variance_constraint, actual_value = PNum 12, expected_threshold = PNum 10,
      month = PStr ''2024-01'', severity = ''medium''\<rparr>"






definition tier_group :: pydict where
  "tier_group = [(''name'', PStr ''tier_one''), (''criteria'', PDict [(''tier'', PNum 1)])]"

definition state_group :: pydict where
  "state_group = [(''name'', PStr ''bihar_districts''),
                  (''criteria'', PDict [(''state'', PStr ''Bihar'')])]"

definition kerala_record :: pydict where
  "kerala_record = [(''district_id'', PStr ''D4''), (''district_name'', PStr ''Delta''),
                    (''month'', PStr ''2024-01''), (''state'', PStr ''Kerala'')]"

definition tier_record :: pydict where
  "tier_record = [(''district_id'', PStr ''D3''), (''district_name'', PStr ''Gamma''),
                  (''month'', PStr ''2024-01''), (''tier'', PNum 1)]"

text \<open>The classifier as the specification words it, on a record whose criteria fields
  hold numbers: a bare number asks for equality, a range for its present bounds,
  inclusively; the first cohort whose criteria all hold gives its name.\<close>

definition spec_bound_holds :: "(real \<Rightarrow> real \<Rightarrow> bool) \<Rightarrow> pyval option \<Rightarrow> real \<Rightarrow> bool" where
  "spec_bound_holds rel bound x = (case bound of Some (PNum b) \<Rightarrow> rel b x | _ \<Rightarrow> True)"

definition spec_criterion :: "pydict \<Rightarrow> string \<times> pyval \<Rightarrow> bool" where
  "spec_criterion r fc =
     (case dict_get r (fst fc) of
        PNum x \<Rightarrow>
          (case snd fc of
             PDict d \<Rightarrow> spec_bound_holds (\<le>) (map_of d ''min'') x
                        \<and> spec_bound_holds (\<ge>) (map_of d ''max'') x
           | scalar \<Rightarrow> PNum x = scalar)
      | _ \<Rightarrow> False)"

definition spec_matches :: "pydict \<Rightarrow> pydict \<Rightarrow> bool" where
  "spec_matches r target_group =
     (case dict_get_default target_group ''criteria'' (PDict []) of
        PDict criteria \<Rightarrow> list_all (spec_criterion r) criteria
      | _ \<Rightarrow> False)"

definition spec_classify :: "pydict \<Rightarrow> pydict list \<Rightarrow> pyval" where
  "spec_classify r groups =
     (case find (spec_matches r) groups of
        None \<Rightarrow> PStr ''unclassified''
      | Some target_group \<Rightarrow> dict_get target_group ''name'')"

text \<open>The inputs on which the two classifiers agree with it: every cohort has a name and
  a criteria object, every condition is a range with numeric bounds or, for the backend
  only, a number, and the record's value for a criterion's field is a number or absent.\<close>

definition numeric_bound :: "pyval option \<Rightarrow> bool" where
  "numeric_bound bound = (case bound of None \<Rightarrow> True | Some (PNum b) \<Rightarrow> True | _ \<Rightarrow> False)"

definition condition_accepted :: "variant \<Rightarrow> pyval \<Rightarrow> bool" where
  "condition_accepted v conditions =
     (case conditions of
        PDict d \<Rightarrow> numeric_bound (map_of d ''min'') \<and> numeric_bound (map_of d ''max'')
      | PNum n \<Rightarrow> v = Backend
      | _ \<Rightarrow> False)"

definition numeric_or_absent :: "pyval \<Rightarrow> bool" where
  "numeric_or_absent x = (case x of PNone \<Rightarrow> True | PNum n \<Rightarrow> True | _ \<Rightarrow> False)"

definition group_accepted :: "variant \<Rightarrow> pydict \<Rightarrow> pydict \<Rightarrow> bool" where
  "group_accepted v r target_group =
     (map_of target_group ''name'' \<noteq> None
      \<and> (case dict_get_default target_group ''criteria'' (PDict []) of
           PDict criteria \<Rightarrow>
             list_all (\<lambda>fc. condition_accepted v (snd fc)
                            \<and> numeric_or_absent (dict_get r (fst fc))) criteria
         | _ \<Rightarrow> False))"

section \<open>Properties of the evaluator and the scorer\<close>

lemma py_then_simps:
  "py_then (Inl e) f = Inl e"
  "py_then (Inr x) f = f x"
  by (simp_all add: py_then_def)

lemma dict_index_simps:
  "map_of d k = Some v \<Longrightarrow> dict_index d k = Inr v"
  "map_of d k = None \<Longrightarrow> dict_index d k = Inl (KeyError k)"
  by (simp_all add: dict_index_def)

text \<open>
  C1. For a numeric value and a constraint carrying a metric and a numeric threshold:
  under type minimum_coverage or resource_allocation the evaluator reports a violation
  exactly when the value is below the threshold, under type temporal_consistency exactly
  when the value is above it, and in each case it returns the constraint's own threshold.
\<close>

theorem check_metric_constraint_known_types:
  assumes "map_of c ''metric'' = Some m"
    and "map_of c ''threshold'' = Some (PNum t)"
    and "map_of c ''type'' = Some (PStr ty)"
  shows "(ty = ''minimum_coverage'' \<or> ty = ''resource_allocation'' \<longrightarrow>
            check_metric_constraint (PNum v) c tm = Inr (v < t, PNum t))
       \<and> (ty = ''temporal_consistency'' \<longrightarrow>
            check_metric_constraint (PNum v) c tm = Inr (v > t, PNum t))"
  using assms
  by (simp add: check_metric_constraint_def dict_index_simps dict_get_def py_then_simps)

theorem check_metric_constraint_known_types_witness:
  "check_metric_constraint (PNum 72)
     [(''type'', PStr ''minimum_coverage''), (''metric'', PStr ''coverage_percentage''),
      (''threshold'', PNum 80), (''applies_to'', PStr ''priority_districts'')] []
   = Inr (True, PNum 80)
   \<and> check_metric_constraint (PNum 5)
     [(''type'', PStr ''temporal_consistency''), (''metric'', PStr ''monthly_variance''),
      (''threshold'', PNum 10), (''applies_to'', PStr ''all'')] []
   = Inr (False, PNum 10)"
  using check_metric_constraint_known_types
      [of "[(''type'', PStr ''minimum_coverage''), (''metric'', PStr ''coverage_percentage''),
      (''threshold'', PNum 80), (''applies_to'', PStr ''priority_districts'')]"
      "PStr ''coverage_percentage''" 80 "''minimum_coverage''" 72 "[]"]
    check_metric_constraint_known_types
      [of "[(''type'', PStr ''temporal_consistency''), (''metric'', PStr ''monthly_variance''),
      (''threshold'', PNum 10), (''applies_to'', PStr ''all'')]"
      "PStr ''monthly_variance''" 10 "''temporal_consistency''" 5 "[]"]
  by simp




text \<open>
  C3. With a threshold of exactly 0 the scorer does not return "high": for every
  numeric actual value and every constraint type the unguarded division raises
  ZeroDivisionError.
\<close>

theorem calculate_severity_zero_threshold:
  "calculate_severity (PNum a) (PNum 0) ty = Inl ZeroDivisionError"
  by (simp add: calculate_severity_def py_then_simps)

section \<open>Properties of the detectors\<close>

text \<open>What a successful loop returns, and what an emitted finding records.\<close>

lemma py_lt_None [simp]: "py_lt val PNone = Inl TypeError"
  by (cases val) simp_all

lemma py_gt_None [simp]: "py_gt val PNone = Inl TypeError"
  by (cases val) simp_all

lemma collect_mem:
  "collect f xs = Inr out \<Longrightarrow> d \<in> set out \<Longrightarrow> \<exists>x\<in>set xs. \<exists>ys. f x = Inr ys \<and> d \<in> set ys"
proof (induction xs arbitrary: out)
  case Nil
  then show ?case by simp
next
  case (Cons x xs)
  then show ?case
    by (fastforce split: sum.splits)
qed

lemma collect_Inr_I:
  "list_all2 (\<lambda>x ys. f x = Inr ys) xs yss \<Longrightarrow> collect f xs = Inr (concat yss)"
  by (induction xs yss rule: list_all2_induct) simp_all

lemma collect_Inr_D:
  "collect f xs = Inr out \<Longrightarrow>
     \<exists>yss. list_all2 (\<lambda>x ys. f x = Inr ys) xs yss \<and> out = concat yss"
proof (induction xs arbitrary: out)
  case Nil
  then show ?case by simp
next
  case (Cons x xs)
  from Cons.prems obtain ys zs where ys: "f x = Inr ys" and zs: "collect f xs = Inr zs"
    and out: "out = ys @ zs"
    by (auto split: sum.splits)
  from Cons.IH [OF zs] obtain yss where "list_all2 (\<lambda>x ys. f x = Inr ys) xs yss" "zs = concat yss"
    by blast
  with ys out have "list_all2 (\<lambda>x ys. f x = Inr ys) (x # xs) (ys # yss) \<and> out = concat (ys # yss)"
    by simp
  then show ?case by blast
qed

lemma py_then_Inr_iff: "py_then m f = Inr y \<longleftrightarrow> (\<exists>x. m = Inr x \<and> f x = Inr y)"
  by (cases m) (simp_all add: py_then_simps)





lemma temporal_constraints_type:
  "temporal_constraints cs = Inr tcs \<Longrightarrow> c \<in> set tcs \<Longrightarrow>
     c \<in> set cs \<and> map_of c ''type'' = Some (PStr ''temporal_consistency'')"
proof (induction cs arbitrary: tcs)
  case Nil
  then show ?case by simp
next
  case (Cons a cs)
  then show ?case
    by (auto simp: dict_index_def split: sum.splits option.splits if_splits)
qed





lemma text_value_type_error:
  assumes "map_of c ''type'' = Some (PStr ty)"
    and "ty \<in> set [''minimum_coverage'', ''resource_allocation'', ''temporal_consistency'']"
    and "map_of c ''metric'' = Some m" and "dict_get c ''threshold'' = PNum t"
  shows "check_metric_constraint (PStr s) c tm = Inl TypeError"
  using assms
  by (auto simp: check_metric_constraint_def dict_index_simps py_then_simps)

text \<open>
  C4. A record whose constrained metric holds text kept by ingestion is not treated as
  missing: the row below, with the unparseable coverage cell retained as a string, makes
  the per-record detector raise TypeError in the comparison with the numeric threshold,
  in both variants, and the whole run fails with it.
\<close>

theorem text_metric_value_raises:
  "process_row sample_float text_coverage_row =
     [(''district_id'', PStr ''D1''), (''district_name'', PStr ''Alpha''),
      (''month'', PStr ''2024-01''), (''literacy_rate'', PNum 65),
      (''coverage_percentage'', PStr ''n/a'')]
 \<and> detect_metric_drift Cli (process_row sample_float text_coverage_row) sample_policy
      (PStr ''2024-01'') = Inl TypeError
 \<and> detect_metric_drift Backend (process_row sample_float text_coverage_row) sample_policy
      (PStr ''2024-01'') = Inl TypeError
 \<and> detect_all_drift Cli [process_row sample_float text_coverage_row] sample_policy = Inl TypeError"
  by code_simp




section \<open>Properties of the temporal detector\<close>






section \<open>Properties of the aggregator\<close>

lemma first_seen_snoc:
  "first_seen (xs @ [x]) = (if x \<in> set xs then first_seen xs else first_seen xs @ [x])"
  by (simp add: first_seen_def)

lemma set_first_seen [simp]: "set (first_seen xs) = set xs"
  by (simp add: first_seen_def)

lemma distinct_first_seen [simp]: "distinct (first_seen xs)"
  by (simp add: first_seen_def)

lemma group_append_old:
  "distinct ks \<Longrightarrow> k \<in> set ks \<Longrightarrow>
     group_append (map (\<lambda>k'. (k', h k')) ks) k r =
       map (\<lambda>k'. (k', if k' = k then h k' @ [r] else h k')) ks"
  by (induction ks) auto

lemma group_append_new:
  "k \<notin> set ks \<Longrightarrow>
     group_append (map (\<lambda>k'. (k', h k')) ks) k r = map (\<lambda>k'. (k', h k')) ks @ [(k, [r])]"
  by (induction ks) auto

lemma spec_groups_snoc:
  assumes "dict_get r ''district_id'' = k"
  shows "group_append (spec_groups pre) k r = spec_groups (pre @ [r])"
proof (cases "k \<in> set (map (\<lambda>r. dict_get r ''district_id'') pre)")
  case True
  with assms show ?thesis
    by (simp add: spec_groups_def first_seen_snoc group_append_old) 
next
  case False
  then have "filter (\<lambda>r. dict_get r ''district_id'' = k) pre = []"
    by (auto simp: filter_empty_conv)
  with False assms show ?thesis
    by (auto simp add: spec_groups_def first_seen_snoc group_append_new)
qed

lemma group_records_spec:
  "group_records (spec_groups pre) recs = Inr g \<Longrightarrow> g = spec_groups (pre @ recs)"
proof (induction recs arbitrary: pre)
  case Nil
  then show ?case by simp
next
  case (Cons r recs)
  from Cons.prems obtain k where k: "dict_index r ''district_id'' = Inr k"
    and g: "group_records (group_append (spec_groups pre) k r) recs = Inr g"
    by (auto split: sum.splits if_splits)
  from k have "dict_get r ''district_id'' = k"
    by (auto simp: dict_index_def dict_get_def split: option.splits)
  with g have "group_records (spec_groups (pre @ [r])) recs = Inr g"
    by (simp add: spec_groups_snoc)
  from Cons.IH [OF this] show ?case by simp
qed

lemma group_records_groups:
  "group_records [] recs = Inr g \<Longrightarrow> g = spec_groups recs"
  using group_records_spec [of "[]" recs g] by (simp add: spec_groups_def first_seen_def)

lemma region_findings_Inr:
  assumes "region_findings v policy kh = Inr ys"
  shows "\<exists>b. list_all2 (\<lambda>r ds. detect_metric_drift v r policy
                 (dict_get_default r ''month'' (PStr ''unknown'')) = Inr ds) (snd kh) (fst b)
           \<and> detect_temporal_drift v (snd kh) policy = Inr (snd b)
           \<and> ys = concat (fst b) @ snd b"
proof -
  from assms obtain ms ts where
    ms: "collect (\<lambda>r. detect_metric_drift v r policy
           (dict_get_default r ''month'' (PStr ''unknown''))) (snd kh) = Inr ms"
    and ts: "detect_temporal_drift v (snd kh) policy = Inr ts" and ys: "ys = ms @ ts"
    by (auto simp: region_findings_def py_then_Inr_iff)
  from collect_Inr_D [OF ms] obtain dss where
    "list_all2 (\<lambda>r ds. detect_metric_drift v r policy
        (dict_get_default r ''month'' (PStr ''unknown'')) = Inr ds) (snd kh) dss" "ms = concat dss"
    by blast
  with ts ys show ?thesis
    by (intro exI [of _ "(dss, ts)"]) simp
qed

lemma collect_region_findings:
  "collect (region_findings v policy) g = Inr out \<Longrightarrow>
     \<exists>blocks.
       list_all2 (\<lambda>kh b.
           list_all2 (\<lambda>r ds. detect_metric_drift v r policy
               (dict_get_default r ''month'' (PStr ''unknown'')) = Inr ds) (snd kh) (fst b)
           \<and> detect_temporal_drift v (snd kh) policy = Inr (snd b)) g blocks
     \<and> out = concat (map (\<lambda>b. concat (fst b) @ snd b) blocks)"
proof (induction g arbitrary: out)
  case Nil
  then show ?case by simp
next
  case (Cons kh g)
  from Cons.prems obtain ys zs where ys: "region_findings v policy kh = Inr ys"
    and zs: "collect (region_findings v policy) g = Inr zs" and out: "out = ys @ zs"
    by (auto split: sum.splits)
  from region_findings_Inr [OF ys] obtain b where
    b: "list_all2 (\<lambda>r ds. detect_metric_drift v r policy
               (dict_get_default r ''month'' (PStr ''unknown'')) = Inr ds) (snd kh) (fst b)"
       "detect_temporal_drift v (snd kh) policy = Inr (snd b)" "ys = concat (fst b) @ snd b"
    by blast
  from Cons.IH [OF zs] obtain blocks where
    bs: "list_all2 (\<lambda>kh b.
           list_all2 (\<lambda>r ds. detect_metric_drift v r policy
               (dict_get_default r ''month'' (PStr ''unknown'')) = Inr ds) (snd kh) (fst b)
           \<and> detect_temporal_drift v (snd kh) policy = Inr (snd b)) g blocks"
        "zs = concat (map (\<lambda>b. concat (fst b) @ snd b) blocks)"
    by blast
  show ?case
    by (rule exI [of _ "b # blocks"]) (simp add: b bs out)
qed

text \<open>
  C8. Whenever the aggregator returns, its output is the concatenation, over the regions
  in first-seen order, of one block per region: the metric findings of the region's
  records, in input order, followed by the temporal findings of the region's history.
  Hence the length of the output is the sum over the regions of the metric-finding counts
  plus the temporal-finding count, and a region's metric findings are contiguous and
  precede its temporal findings.
\<close>

theorem detect_all_drift_blocks:
  assumes "detect_all_drift v recs policy = Inr out"
  shows "\<exists>blocks.
           list_all2 (\<lambda>kh b.
               list_all2 (\<lambda>r ds. detect_metric_drift v r policy
                   (dict_get_default r ''month'' (PStr ''unknown'')) = Inr ds) (snd kh) (fst b)
               \<and> detect_temporal_drift v (snd kh) policy = Inr (snd b))
             (spec_groups recs) blocks
         \<and> out = concat (map (\<lambda>b. concat (fst b) @ snd b) blocks)
         \<and> length out = sum_list (map (\<lambda>b. sum_list (map length (fst b)) + length (snd b)) blocks)"
proof -
  from assms obtain g where g: "group_records [] recs = Inr g"
    and c: "collect (region_findings v policy) g = Inr out"
    by (auto simp: detect_all_drift_def py_then_Inr_iff)
  from collect_region_findings [OF c] obtain blocks where
    b: "list_all2 (\<lambda>kh b.
           list_all2 (\<lambda>r ds. detect_metric_drift v r policy
               (dict_get_default r ''month'' (PStr ''unknown'')) = Inr ds) (snd kh) (fst b)
           \<and> detect_temporal_drift v (snd kh) policy = Inr (snd b)) g blocks"
    and out: "out = concat (map (\<lambda>b. concat (fst b) @ snd b) blocks)"
    by blast
  have len: "length (concat (map (\<lambda>b. concat (fst b) @ snd b) blocks))
      = sum_list (map (\<lambda>b. sum_list (map length (fst b)) + length (snd b)) blocks)"
    by (simp add: length_concat comp_def)
  from group_records_groups [OF g] have gs: "g = spec_groups recs" .
  show ?thesis
    by (rule exI [of _ blocks]) (use b out len gs in simp)
qed


theorem detect_all_drift_blocks_witness:
  "detect_all_drift Cli interleaved_records sample_policy =
     Inr [d1_january_coverage, d1_february_coverage, d1_january_variance, d2_february_finding]
 \<and> spec_groups interleaved_records =
     [(PStr ''D1'', [d1_january, d1_february]), (PStr ''D2'', [d2_january, d2_february])]
 \<and> (\<exists>blocks.
       list_all2 (\<lambda>kh b.
           list_all2 (\<lambda>r ds. detect_metric_drift Cli r sample_policy
               (dict_get_default r ''month'' (PStr ''unknown'')) = Inr ds) (snd kh) (fst b)
           \<and> detect_temporal_drift Cli (snd kh) sample_policy = Inr (snd b))
         (spec_groups interleaved_records) blocks
     \<and> [d1_january_coverage, d1_february_coverage, d1_january_variance, d2_february_finding]
         = concat (map (\<lambda>b. concat (fst b) @ snd b) blocks)
     \<and> length [d1_january_coverage, d1_february_coverage, d1_january_variance,
           d2_february_finding]
         = sum_list (map (\<lambda>b. sum_list (map length (fst b)) + length (snd b)) blocks))"
proof -
  have e: "detect_all_drift Cli interleaved_records sample_policy =
     Inr [d1_january_coverage, d1_february_coverage, d1_january_variance, d2_february_finding]"
    by code_simp
  have g: "spec_groups interleaved_records =
     [(PStr ''D1'', [d1_january, d1_february]), (PStr ''D2'', [d2_january, d2_february])]"
    by code_simp
  show ?thesis
    by (intro conjI e g detect_all_drift_blocks [OF e])
qed

section \<open>Properties of the summary\<close>








text \<open>Every finding the engine emits has one of the three severities, so the summary of
  the engine's own output falls under the statement above.\<close>

lemma calculate_severity_range:
  "calculate_severity a t ty = Inr s \<Longrightarrow> s \<in> set [''low'', ''medium'', ''high'']"
  by (auto simp: calculate_severity_def py_then_Inr_iff Let_def split: if_splits)

lemma metric_finding_severity:
  "metric_finding v r tm mon c = Inr ys \<Longrightarrow> d \<in> set ys \<Longrightarrow>
     severity d \<in> set [''low'', ''medium'', ''high'']"
  by (auto simp: metric_finding_def py_then_Inr_iff split: if_splits
      dest!: calculate_severity_range)

lemma temporal_finding_severity:
  "temporal_finding v c m t r = Inr ys \<Longrightarrow> d \<in> set ys \<Longrightarrow>
     severity d \<in> set [''low'', ''medium'', ''high'']"
  by (auto simp: temporal_finding_def py_then_Inr_iff split: if_splits
      dest!: calculate_severity_range)

lemma detect_all_drift_cases:
  assumes "detect_all_drift v recs policy = Inr out" and "d \<in> set out"
  shows "(\<exists>r mon c ys. metric_finding v r (target_metrics policy) mon c = Inr ys \<and> d \<in> set ys)
       \<or> (\<exists>c m t r ys. temporal_finding v c m t r = Inr ys \<and> d \<in> set ys)"
proof -
  from assms obtain kh ys where "region_findings v policy kh = Inr ys" "d \<in> set ys"
    by (auto simp: detect_all_drift_def py_then_Inr_iff dest!: collect_mem)
  then obtain ms ts where ms: "collect (\<lambda>record. detect_metric_drift v record policy
                         (dict_get_default record ''month'' (PStr ''unknown''))) (snd kh) = Inr ms"
    and ts: "detect_temporal_drift v (snd kh) policy = Inr ts" and d: "d \<in> set ms \<or> d \<in> set ts"
    by (auto simp: region_findings_def py_then_Inr_iff)
  from d show ?thesis
  proof
    assume "d \<in> set ms"
    with ms obtain r zs where "detect_metric_drift v r policy
        (dict_get_default r ''month'' (PStr ''unknown'')) = Inr zs" "d \<in> set zs"
      by (blast dest: collect_mem)
    then show ?thesis
      by (auto simp: detect_metric_drift_def py_then_Inr_iff dest!: collect_mem)
  next
    assume "d \<in> set ts"
    with ts obtain tcs where "collect (temporal_pass v (snd kh)) tcs = Inr ts" "d \<in> set ts"
      by (auto simp: detect_temporal_drift_def py_then_Inr_iff split: if_splits)
    then obtain c zs where "temporal_pass v (snd kh) c = Inr zs" "d \<in> set zs"
      by (blast dest: collect_mem)
    then show ?thesis
      by (auto simp: temporal_pass_def py_then_Inr_iff dest!: collect_mem)
  qed
qed

lemma detect_all_drift_severity:
  assumes "detect_all_drift v recs policy = Inr out" and "d \<in> set out"
  shows "severity d \<in> set [''low'', ''medium'', ''high'']"
  using detect_all_drift_cases [OF assms]
  by (blast dest: metric_finding_severity temporal_finding_severity)

section \<open>Region identity\<close>









section \<open>Cohort criteria\<close>

text \<open>On the accepted inputs both classifiers return what the specification says: the
  name of the first cohort whose criteria all hold, or "unclassified"; a criterion whose
  field the record lacks fails its cohort without an error.\<close>

lemma bound_broken_min:
  "numeric_bound (map_of d ''min'') \<Longrightarrow>
     bound_broken ''min'' py_lt (PNum x) (PDict d)
       = Inr (\<not> spec_bound_holds (\<le>) (map_of d ''min'') x)"
  by (auto simp: bound_broken_def numeric_bound_def spec_bound_holds_def py_then_simps
      dict_index_def split: option.splits pyval.splits)

lemma bound_broken_max:
  "numeric_bound (map_of d ''max'') \<Longrightarrow>
     bound_broken ''max'' py_gt (PNum x) (PDict d)
       = Inr (\<not> spec_bound_holds (\<ge>) (map_of d ''max'') x)"
  by (auto simp: bound_broken_def numeric_bound_def spec_bound_holds_def py_then_simps
      dict_index_def split: option.splits pyval.splits)

lemma within_range_spec:
  "numeric_bound (map_of d ''min'') \<Longrightarrow> numeric_bound (map_of d ''max'') \<Longrightarrow>
     within_range (PNum x) (PDict d)
       = Inr (spec_bound_holds (\<le>) (map_of d ''min'') x
              \<and> spec_bound_holds (\<ge>) (map_of d ''max'') x)"
  by (simp add: within_range_def bound_broken_min bound_broken_max py_then_simps)

lemma criterion_holds_spec:
  assumes "condition_accepted v (snd fc)" and "numeric_or_absent (dict_get r (fst fc))"
  shows "criterion_holds v r fc = Inr (spec_criterion r fc)"
proof (cases "dict_get r (fst fc)")
  case PNone
  then show ?thesis
    by (simp add: criterion_holds_def spec_criterion_def)
next
  case (PNum x)
  with assms(1) show ?thesis
    by (cases v; cases "snd fc")
      (simp_all add: criterion_holds_def spec_criterion_def condition_accepted_def
        within_range_spec)
next
  case (PStr s)
  with assms(2) show ?thesis by (simp add: numeric_or_absent_def)
next
  case (PDict d)
  with assms(2) show ?thesis by (simp add: numeric_or_absent_def)
qed

lemma criteria_loop_spec:
  "list_all (\<lambda>fc. condition_accepted v (snd fc) \<and> numeric_or_absent (dict_get r (fst fc))) criteria
     \<Longrightarrow> criteria_loop v r criteria = Inr (list_all (spec_criterion r) criteria)"
  by (induction criteria) (auto simp: criterion_holds_spec)

lemma matches_target_group_spec:
  "group_accepted v r tg \<Longrightarrow> matches_target_group v r tg = Inr (spec_matches r tg)"
  by (auto simp: group_accepted_def matches_target_group_def spec_matches_def
      criteria_loop_spec split: pyval.splits)

lemma classify_district_spec:
  "list_all (group_accepted v r) groups \<Longrightarrow>
     classify_district v r groups = Inr (spec_classify r groups)"
proof (induction groups)
  case Nil
  then show ?case by (simp add: spec_classify_def)
next
  case (Cons tg groups)
  then have m: "matches_target_group v r tg = Inr (spec_matches r tg)"
    and n: "map_of tg ''name'' \<noteq> None"
    and ih: "classify_district v r groups = Inr (spec_classify r groups)"
    by (auto simp: matches_target_group_spec group_accepted_def)
  from n have "dict_index tg ''name'' = Inr (dict_get tg ''name'')"
    by (auto simp: dict_index_def dict_get_def)
  with m ih show ?case
    by (simp add: spec_classify_def)
qed

lemma missing_field_fails_match:
  "dict_get r f = PNone \<Longrightarrow> criterion_holds v r (f, conditions) = Inr False"
  by (simp add: criterion_holds_def)

text \<open>
  C6. A criterion given as an exact value is not honoured by the command-line variant:
  for the cohort selected by \<open>tier = 1\<close> and a record with \<open>tier = 1\<close>, its
  classifier raises TypeError (the membership test \<open>"min" in 1\<close>) instead of
  returning the cohort's name, which the backend's classifier returns. A criterion
  given as a text value is compared by neither variant: a record of another state is
  classified into the cohort selected by \<open>state = "Bihar"\<close>.
\<close>

theorem exact_value_criterion_raises:
  "classify_district Cli tier_record [tier_group] = Inl TypeError
 \<and> classify_district Backend tier_record [tier_group] = Inr (PStr ''tier_one'')
 \<and> classify_district Backend kerala_record [state_group] = Inr (PStr ''bihar_districts'')
 \<and> classify_district Cli kerala_record [state_group] = Inr (PStr ''bihar_districts'')"
  by code_simp

end
